theory Spec2Isabelle
  imports Main
begin

section \<open>Routing configuration\<close>

text \<open>
  \<^verbatim>\<open>routing\<close> is the object built by \<^verbatim>\<open>defineRouting({locales: [...], defaultLocale: ...})\<close>
  in \<^verbatim>\<open>src/i18n/routing.ts\<close>: an array of locale codes and one default locale code.
\<close>

record routing_config =
  locales :: "string list"
  defaultLocale :: string

text \<open>
  The template's own configuration: the README lists the supported locales \<^verbatim>\<open>en\<close> and
  \<^verbatim>\<open>ar\<close>, and its routing snippet declares \<^verbatim>\<open>defaultLocale: "en"\<close>.
\<close>

definition routing :: routing_config where
  "routing = \<lparr>locales = [''en'', ''ar''], defaultLocale = ''en''\<rparr>"

text \<open>
  The README's "Adding a New Locale" snippet, as printed:
  \<^verbatim>\<open>defineRouting({locales: ["en", "ar", "fr"], defaultLocale: "en"})\<close>.
\<close>

definition routing_with_fr :: routing_config where
  "routing_with_fr = \<lparr>locales = [''en'', ''ar'', ''fr''], defaultLocale = ''en''\<rparr>"

text \<open>
  The project-structure guide's \<^verbatim>\<open>packages/locales\<close>:
  Supported Locales \<^verbatim>\<open>["en", "ar"]\<close>, Default Locale \<^verbatim>\<open>"ar"\<close>.
\<close>

definition guide_locales :: routing_config where
  "guide_locales = \<lparr>locales = [''en'', ''ar''], defaultLocale = ''ar''\<rparr>"

text \<open>The is-default attribute of a locale: it is the configuration's \<^verbatim>\<open>defaultLocale\<close>.\<close>

definition is_default :: "routing_config \<Rightarrow> string \<Rightarrow> bool" where
  "is_default r l = (l = defaultLocale r)"

section \<open>The locale layout, \<^verbatim>\<open>src/app/[locale]/layout.tsx\<close>\<close>

text \<open>
  \<^verbatim>\<open>notFound()\<close> of \<^verbatim>\<open>next/navigation\<close> throws: it never returns to its caller, and the
  framework renders the not-found page. It is the only error the components raise.
\<close>

datatype nav_error = NotFound

text \<open>
  \<^verbatim>\<open>setRequestLocale(locale)\<close> of \<^verbatim>\<open>next-intl/server\<close> stores the locale for the current
  request; \<^verbatim>\<open>getMessages()\<close> and \<^verbatim>\<open>getTranslations(ns)\<close> read that store. The store is
  threaded explicitly; the two readers belong to the library and are parameters.
\<close>

record request_store =
  requestLocale :: "string option"

definition setRequestLocale :: "string \<Rightarrow> request_store \<Rightarrow> request_store" where
  "setRequestLocale l s = s\<lparr>requestLocale := Some l\<rparr>"

text \<open>
  \<^verbatim>\<open>routing.locales.map((locale) => ({ locale }))\<close>; the object's field \<^verbatim>\<open>locale\<close> is
  \<open>params_locale\<close> here.
\<close>

record static_params =
  params_locale :: string

definition generateStaticParams :: "routing_config \<Rightarrow> static_params list" where
  "generateStaticParams r = map (\<lambda>l. \<lparr>params_locale = l\<rparr>) (locales r)"

text \<open>
  \<^verbatim>\<open>Providers({ children })\<close> returns \<^verbatim>\<open><QueryProvider>{children}</QueryProvider>\<close>.
\<close>

datatype 'c providers_tree = QueryProvider 'c

definition Providers :: "'c \<Rightarrow> 'c providers_tree" where
  "Providers children = QueryProvider children"

text \<open>
  The element the layout returns:
  \<^verbatim>\<open><html lang={locale} dir={dir} className="h-full"><body className="h-full w-full">
  <NextIntlClientProvider messages={messages}><Providers>{children}</Providers>...\<close>
\<close>

record ('m, 'c) html_doc =
  html_lang :: string
  html_dir :: string
  html_className :: string
  body_className :: string
  provider_messages :: 'm
  provider_children :: "'c providers_tree"

definition LocaleLayout ::
  "routing_config \<Rightarrow> (request_store \<Rightarrow> 'm) \<Rightarrow> 'c \<Rightarrow> string \<Rightarrow> request_store
     \<Rightarrow> (nav_error + ('m, 'c) html_doc) \<times> request_store" where
  "LocaleLayout r getMessages children loc s =
     (if loc \<notin> set (locales r) then (Inl NotFound, s)
      else
        let s1 = setRequestLocale loc s;
            messages = getMessages s1;
            dir = (if loc = ''ar'' then ''rtl'' else ''ltr'')
        in (Inr \<lparr>html_lang = loc, html_dir = dir, html_className = ''h-full'',
                  body_className = ''h-full w-full'',
                  provider_messages = messages,
                  provider_children = Providers children\<rparr>, s1))"

text \<open>
  \<^verbatim>\<open>HomePage({ params })\<close>: \<^verbatim>\<open>setRequestLocale(locale)\<close>, then
  \<^verbatim>\<open>t = await getTranslations("hero")\<close>, then the page with \<^verbatim>\<open>t("title")\<close> and
  \<^verbatim>\<open>t("subtitle")\<close>. There is no membership test and no call of \<^verbatim>\<open>notFound\<close>.
\<close>

record home_page =
  main_className :: string
  h1_className :: string
  h1_text :: string
  p_text :: string

definition HomePage ::
  "(request_store \<Rightarrow> string \<Rightarrow> string \<Rightarrow> string) \<Rightarrow> string \<Rightarrow> request_store
     \<Rightarrow> (nav_error + home_page) \<times> request_store" where
  "HomePage getTranslations loc s =
     (let s1 = setRequestLocale loc s;
          t = getTranslations s1 ''hero''
      in (Inr \<lparr>main_className = ''w-full min-h-screen flex flex-col gap-3 items-center justify-center'',
                h1_className = ''text-3xl font-semibold'',
                h1_text = t ''title'', p_text = t ''subtitle''\<rparr>, s1))"

section \<open>The locale-aware link component\<close>

text \<open>
  \<^verbatim>\<open>LocalizedLink(props)\<close> returns \<^verbatim>\<open><Link {...props} />\<close>, with \<^verbatim>\<open>Link\<close> imported from
  \<^verbatim>\<open>@/i18n/navigation\<close>. The imported component is a parameter here.
\<close>

definition LocalizedLink :: "('p \<Rightarrow> 'e) \<Rightarrow> 'p \<Rightarrow> 'e" where
  "LocalizedLink Link props = Link props"

section \<open>The translation resolver\<close>

text \<open>
  Modelled from the spec: a message bundle maps key paths (dot-delimited, such as
  \<^verbatim>\<open>hero.title\<close>) to translated strings; there is one bundle per locale. The message
  files \<^verbatim>\<open>messages/en.json\<close> and \<^verbatim>\<open>messages/ar.json\<close> are not among the source files.
\<close>

type_synonym message_bundle = "string \<rightharpoonup> string"

text \<open>
  Modelled from the spec: the translation resolver \<^verbatim>\<open>resolve(locale, keyPath)\<close>. In the
  repository the lookup is done by \<^verbatim>\<open>useTranslations\<close> and \<^verbatim>\<open>getTranslations\<close>, configured
  in \<^verbatim>\<open>src/i18n/request.ts\<close>; none of them is among the source files. The spec's order is:
  exact match in the locale's bundle, then exact match in the default locale's bundle,
  then the key path itself, verbatim. The result is always a string: there is no error.
\<close>

definition resolve ::
  "routing_config \<Rightarrow> (string \<Rightarrow> message_bundle) \<Rightarrow> string \<Rightarrow> string \<Rightarrow> string" where
  "resolve r bundles l keyPath =
     (case bundles l keyPath of
        Some v \<Rightarrow> v
      | None \<Rightarrow>
          (case bundles (defaultLocale r) keyPath of
             Some v \<Rightarrow> v
           | None \<Rightarrow> keyPath))"

text \<open>
  Modelled from the spec: the bundles of its scenario, \<^verbatim>\<open>en = {"hero.title": "Welcome"}\<close>
  and \<^verbatim>\<open>ar = {}\<close>.
\<close>

definition scenario_bundles :: "string \<Rightarrow> message_bundle" where
  "scenario_bundles l =
     (if l = ''en'' then [''hero.title'' \<mapsto> ''Welcome''] else Map.empty)"

section \<open>The locale router\<close>






section \<open>Locale-aware paths\<close>

text \<open>
  Modelled from the spec: a route is a locale segment followed by an application-relative
  path, so a path carries the segment of locale \<open>l\<close> when it is \<^verbatim>\<open>/l\<close> or starts with
  \<^verbatim>\<open>/l/\<close>. The navigation module \<^verbatim>\<open>src/i18n/navigation.ts\<close> is not among the source files.
\<close>

definition has_locale_prefix :: "string \<Rightarrow> string \<Rightarrow> bool" where
  "has_locale_prefix l path =
     (path = CHR ''/'' # l \<or> take (length l + 2) path = CHR ''/'' # l @ ''/'')"

text \<open>
  Modelled from the spec: link generation. The final path has the target locale as its
  leading segment; a path that already has it is not prefixed again; a path that is not
  application-relative (it does not start with \<^verbatim>\<open>/\<close>) passes through unchanged.
\<close>

definition localizedPath :: "string \<Rightarrow> string \<Rightarrow> string" where
  "localizedPath l path =
     (case path of
        [] \<Rightarrow> CHR ''/'' # l
      | c # cs \<Rightarrow>
          (if c \<noteq> CHR ''/'' then path
           else if has_locale_prefix l path then path
           else CHR ''/'' # l @ path))"

text \<open>
  Modelled from the spec: the input of link generation, a path and optionally an explicit
  target locale (the \<^verbatim>\<open>locale\<close> prop), and its output, the element with the final path.
\<close>

record link_props =
  href :: string
  target_locale :: "string option"

record anchor =
  a_href :: string

text \<open>
  Modelled from the spec: the \<^verbatim>\<open>Link\<close> of \<^verbatim>\<open>@/i18n/navigation\<close>; the target locale defaults
  to the active locale.
\<close>

definition Link :: "string \<Rightarrow> link_props \<Rightarrow> anchor" where
  "Link active props =
     \<lparr>a_href = localizedPath (case target_locale props of Some l \<Rightarrow> l | None \<Rightarrow> active)
                 (href props)\<rparr>"

section \<open>Static parameters\<close>

text \<open>
  C8. \<^verbatim>\<open>generateStaticParams\<close> returns one params object per supported locale: the list
  of \<^verbatim>\<open>{locale: L}\<close> for the elements \<^verbatim>\<open>L\<close> of \<^verbatim>\<open>routing.locales\<close>, in the same order, so
  that the statically generated locale routes are exactly the supported locales.
\<close>

theorem generateStaticParams_per_locale:
  "generateStaticParams r = map (\<lambda>l. \<lparr>params_locale = l\<rparr>) (locales r)
   \<and> length (generateStaticParams r) = length (locales r)
   \<and> map params_locale (generateStaticParams r) = locales r
   \<and> params_locale ` set (generateStaticParams r) = set (locales r)"
proof -
  have m: "map params_locale (generateStaticParams r) = locales r"
    by (simp add: generateStaticParams_def comp_def)
  have "set (map params_locale (generateStaticParams r)) = set (locales r)"
    by (simp only: m)
  then have s: "params_locale ` set (generateStaticParams r) = set (locales r)"
    by simp
  show ?thesis
    using m s by (simp add: generateStaticParams_def)
qed

section \<open>Validation of the locale segment\<close>

text \<open>
  C1. For every locale segment that is not a member of \<^verbatim>\<open>routing.locales\<close>, the layout
  signals not-found to its caller: it returns no document at all (in particular not the
  default locale's), and the request locale is never set.
\<close>

theorem LocaleLayout_unsupported_notFound:
  assumes "loc \<notin> set (locales r)"
  shows "LocaleLayout r getMessages children loc s = (Inl NotFound, s)
         \<and> (\<forall>doc s'. LocaleLayout r getMessages children loc s \<noteq> (Inr doc, s'))"
  using assms by (simp add: LocaleLayout_def)

theorem LocaleLayout_unsupported_notFound_witness:
  "''fr'' \<notin> set (locales routing)
   \<and> LocaleLayout routing (\<lambda>_. ()) () ''fr'' \<lparr>requestLocale = None\<rparr>
       = (Inl NotFound, \<lparr>requestLocale = None\<rparr>)"
proof -
  have h: "''fr'' \<notin> set (locales routing)"
    by (simp add: routing_def)
  from LocaleLayout_unsupported_notFound
         [OF h, of "\<lambda>_. ()" "()" "\<lparr>requestLocale = None\<rparr>"] h
  show ?thesis
    by simp
qed

text \<open>
  C9. For every locale that is a member of \<^verbatim>\<open>routing.locales\<close> the not-found branch is
  not taken: the layout sets the request locale and returns its document.
\<close>

theorem LocaleLayout_supported_renders:
  assumes "loc \<in> set (locales r)"
  shows "fst (LocaleLayout r getMessages children loc s) \<noteq> Inl NotFound
         \<and> (\<exists>doc. LocaleLayout r getMessages children loc s = (Inr doc, setRequestLocale loc s))"
  using assms by (simp add: LocaleLayout_def Let_def)

theorem LocaleLayout_supported_renders_witness:
  "''ar'' \<in> set (locales routing)
   \<and> fst (LocaleLayout routing (\<lambda>_. ()) () ''ar'' \<lparr>requestLocale = None\<rparr>) \<noteq> Inl NotFound"
proof -
  have h: "''ar'' \<in> set (locales routing)"
    by (simp add: routing_def)
  from LocaleLayout_supported_renders
         [OF h, of "\<lambda>_. ()" "()" "\<lparr>requestLocale = None\<rparr>"] h
  show ?thesis
    by simp
qed

section \<open>Text direction\<close>

text \<open>
  C6. For every supported locale the layout's document has \<^verbatim>\<open>lang\<close> equal to the locale
  and \<^verbatim>\<open>dir\<close> equal to \<^verbatim>\<open>rtl\<close> exactly when the locale is \<^verbatim>\<open>ar\<close>, \<^verbatim>\<open>ltr\<close> otherwise; and
  each declared configuration has a supported locale that is rendered right-to-left.
\<close>

theorem LocaleLayout_lang_dir:
  "(loc \<in> set (locales r) \<longrightarrow>
      (\<exists>doc. fst (LocaleLayout r getMessages children loc s) = Inr doc
         \<and> html_lang doc = loc
         \<and> (html_dir doc = ''rtl'') = (loc = ''ar'')
         \<and> (html_dir doc = ''ltr'') = (loc \<noteq> ''ar'')))
   \<and> (\<forall>c \<in> {routing, routing_with_fr, guide_locales}.
        \<exists>l \<in> set (locales c). \<exists>doc.
          fst (LocaleLayout c getMessages children l s) = Inr doc \<and> html_dir doc = ''rtl'')"
proof -
  have a: "loc \<in> set (locales r) \<longrightarrow>
      (\<exists>doc. fst (LocaleLayout r getMessages children loc s) = Inr doc
         \<and> html_lang doc = loc
         \<and> (html_dir doc = ''rtl'') = (loc = ''ar'')
         \<and> (html_dir doc = ''ltr'') = (loc \<noteq> ''ar''))"
    by (simp add: LocaleLayout_def Let_def)
  have b: "''ar'' \<in> set (locales c) \<Longrightarrow>
      \<exists>doc. fst (LocaleLayout c getMessages children ''ar'' s) = Inr doc \<and> html_dir doc = ''rtl''"
    for c
    by (simp add: LocaleLayout_def Let_def)
  have m: "''ar'' \<in> set (locales routing)" "''ar'' \<in> set (locales routing_with_fr)"
    "''ar'' \<in> set (locales guide_locales)"
    by (simp_all add: routing_def routing_with_fr_def guide_locales_def)
  from a b m show ?thesis
    by blast
qed

theorem LocaleLayout_lang_dir_witness:
  "''en'' \<in> set (locales routing)
   \<and> (\<exists>doc. fst (LocaleLayout routing (\<lambda>_. ()) () ''en'' \<lparr>requestLocale = None\<rparr>) = Inr doc
         \<and> html_lang doc = ''en'' \<and> html_dir doc = ''ltr'')
   \<and> (\<exists>doc. fst (LocaleLayout routing (\<lambda>_. ()) () ''ar'' \<lparr>requestLocale = None\<rparr>) = Inr doc
         \<and> html_lang doc = ''ar'' \<and> html_dir doc = ''rtl'')"
proof -
  have h: "''en'' \<in> set (locales routing)" "''ar'' \<in> set (locales routing)"
    by (simp_all add: routing_def)
  from LocaleLayout_lang_dir [of "''en''" routing "\<lambda>_. ()" "()" "\<lparr>requestLocale = None\<rparr>"]
       LocaleLayout_lang_dir [of "''ar''" routing "\<lambda>_. ()" "()" "\<lparr>requestLocale = None\<rparr>"] h
  show ?thesis
    by auto
qed

section \<open>The home page\<close>

text \<open>
  C10. \<^verbatim>\<open>HomePage\<close> validates nothing: for every locale string, supported or not, it sets
  the request locale to it and returns its page; it never signals not-found. It does not
  read the routing configuration: the membership test is the layout's, which rejects the
  unsupported \<^verbatim>\<open>fr\<close> that the page renders.
\<close>

theorem HomePage_no_validation:
  "snd (HomePage getTranslations loc s) = setRequestLocale loc s
   \<and> requestLocale (snd (HomePage getTranslations loc s)) = Some loc
   \<and> fst (HomePage getTranslations loc s) \<noteq> Inl NotFound
   \<and> (\<exists>page. fst (HomePage getTranslations loc s) = Inr page
         \<and> h1_text page = getTranslations (setRequestLocale loc s) ''hero'' ''title''
         \<and> p_text page = getTranslations (setRequestLocale loc s) ''hero'' ''subtitle'')
   \<and> fst (HomePage getTranslations ''fr'' s) \<noteq> Inl NotFound
   \<and> fst (LocaleLayout routing getMessages children ''fr'' s) = Inl NotFound"
  by (simp add: HomePage_def LocaleLayout_def routing_def Let_def setRequestLocale_def)

section \<open>The link wrapper\<close>

text \<open>
  C5. \<^verbatim>\<open>LocalizedLink\<close> is a pass-through: applied to any props it is \<^verbatim>\<open>Link\<close> applied to
  the same props. It adds no effect and no error of its own: where \<^verbatim>\<open>Link\<close> is modelled
  with a state and a fallible result, the wrapper's state and result are \<^verbatim>\<open>Link\<close>'s. No
  property of the props (such as the shape of the path) is inspected.
\<close>

theorem LocalizedLink_pass_through:
  fixes link :: "'p \<Rightarrow> 'e"
    and linkS :: "'p \<Rightarrow> 's \<Rightarrow> ('x + 'e) \<times> 's"
  shows "LocalizedLink link props = link props
         \<and> LocalizedLink linkS props s = linkS props s
         \<and> LocalizedLink = (\<lambda>link. link)"
  by (simp add: LocalizedLink_def fun_eq_iff)

section \<open>The default locale\<close>

text \<open>
  C7. In each declared configuration exactly one supported locale is the default: one
  and only one member of \<^verbatim>\<open>locales\<close> has the is-default attribute, and it occurs once.
\<close>

theorem exactly_one_default:
  "(\<exists>!l. l \<in> set (locales routing) \<and> is_default routing l)
   \<and> (\<exists>!l. l \<in> set (locales routing_with_fr) \<and> is_default routing_with_fr l)
   \<and> (\<exists>!l. l \<in> set (locales guide_locales) \<and> is_default guide_locales l)
   \<and> filter (is_default routing) (locales routing) = [''en'']
   \<and> filter (is_default routing_with_fr) (locales routing_with_fr) = [''en'']
   \<and> filter (is_default guide_locales) (locales guide_locales) = [''ar'']"
proof -
  have 1: "\<exists>!l. l \<in> set (locales routing) \<and> is_default routing l"
    by (auto simp: routing_def is_default_def)
  have 2: "\<exists>!l. l \<in> set (locales routing_with_fr) \<and> is_default routing_with_fr l"
    by (auto simp: routing_with_fr_def is_default_def)
  have 3: "\<exists>!l. l \<in> set (locales guide_locales) \<and> is_default guide_locales l"
    by (auto simp: guide_locales_def is_default_def)
  have 4: "filter (is_default routing) (locales routing) = [''en'']"
    by (simp add: routing_def is_default_def)
  have 5: "filter (is_default routing_with_fr) (locales routing_with_fr) = [''en'']"
    by (simp add: routing_with_fr_def is_default_def)
  have 6: "filter (is_default guide_locales) (locales guide_locales) = [''ar'']"
    by (simp add: guide_locales_def is_default_def)
  from 1 2 3 4 5 6 show ?thesis
    by blast
qed

section \<open>Translation lookup\<close>

text \<open>
  C2. For every locale \<open>l\<close> (supported or not) and every key path \<open>k\<close>, \<^verbatim>\<open>resolve\<close>
  returns the entry of \<open>k\<close> in the bundle of \<open>l\<close> when there is one, otherwise the entry of
  \<open>k\<close> in the default locale's bundle when there is one, otherwise \<open>k\<close> itself; it is a
  total function into strings, so it raises nothing. In the scenario with \<^verbatim>\<open>en\<close> the
  default, bundle \<^verbatim>\<open>en = {"hero.title": "Welcome"}\<close> and bundle \<^verbatim>\<open>ar\<close> empty,
  \<^verbatim>\<open>resolve("ar", "hero.title")\<close> is \<^verbatim>\<open>"Welcome"\<close> and \<^verbatim>\<open>resolve("ar", "nav.contact")\<close> is
  \<^verbatim>\<open>"nav.contact"\<close>.
\<close>

theorem resolve_order:
  "(bundles l k = Some v \<longrightarrow> resolve r bundles l k = v)
   \<and> (bundles l k = None \<and> bundles (defaultLocale r) k = Some v \<longrightarrow> resolve r bundles l k = v)
   \<and> (bundles l k = None \<and> bundles (defaultLocale r) k = None \<longrightarrow> resolve r bundles l k = k)
   \<and> resolve routing scenario_bundles ''ar'' ''hero.title'' = ''Welcome''
   \<and> resolve routing scenario_bundles ''ar'' ''nav.contact'' = ''nav.contact''"
proof -
  have g: "(bundles l k = Some v \<longrightarrow> resolve r bundles l k = v)
   \<and> (bundles l k = None \<and> bundles (defaultLocale r) k = Some v \<longrightarrow> resolve r bundles l k = v)
   \<and> (bundles l k = None \<and> bundles (defaultLocale r) k = None \<longrightarrow> resolve r bundles l k = k)"
    by (simp add: resolve_def)
  have a: "resolve routing scenario_bundles ''ar'' ''hero.title'' = ''Welcome''"
    by (simp add: resolve_def routing_def scenario_bundles_def)
  have b: "resolve routing scenario_bundles ''ar'' ''nav.contact'' = ''nav.contact''"
    by (simp add: resolve_def routing_def scenario_bundles_def)
  from g a b show ?thesis by blast
qed

theorem resolve_order_witness:
  "''ar'' \<in> set (locales routing) \<and> ''en'' \<in> set (locales routing)
   \<and> scenario_bundles ''en'' ''hero.title'' = Some ''Welcome''
   \<and> resolve routing scenario_bundles ''en'' ''hero.title'' = ''Welcome''
   \<and> scenario_bundles ''ar'' ''hero.title'' = None
   \<and> scenario_bundles (defaultLocale routing) ''hero.title'' = Some ''Welcome''
   \<and> resolve routing scenario_bundles ''ar'' ''hero.title'' = ''Welcome''
   \<and> scenario_bundles ''ar'' ''nav.contact'' = None
   \<and> scenario_bundles (defaultLocale routing) ''nav.contact'' = None
   \<and> resolve routing scenario_bundles ''ar'' ''nav.contact'' = ''nav.contact''"
proof -
  have h: "''ar'' \<in> set (locales routing)" "''en'' \<in> set (locales routing)"
    "scenario_bundles ''en'' ''hero.title'' = Some ''Welcome''"
    "scenario_bundles ''ar'' ''hero.title'' = None"
    "scenario_bundles (defaultLocale routing) ''hero.title'' = Some ''Welcome''"
    "scenario_bundles ''ar'' ''nav.contact'' = None"
    "scenario_bundles (defaultLocale routing) ''nav.contact'' = None"
    by (simp_all add: routing_def scenario_bundles_def)
  from h
    resolve_order [of scenario_bundles "''en''" "''hero.title''" "''Welcome''" routing]
    resolve_order [of scenario_bundles "''ar''" "''hero.title''" "''Welcome''" routing]
    resolve_order [of scenario_bundles "''ar''" "''nav.contact''" "''x''" routing]
  show ?thesis by blast
qed

section \<open>Locale negotiation\<close>










section \<open>Link generation\<close>

lemma has_locale_prefix_added:
  "has_locale_prefix l (CHR ''/'' # l @ CHR ''/'' # cs)"
  by (simp add: has_locale_prefix_def)

lemma localizedPath_again: "localizedPath l (localizedPath l path) = localizedPath l path"
proof (cases path)
  case Nil
  then show ?thesis by (simp add: localizedPath_def has_locale_prefix_def)
next
  case (Cons c cs)
  show ?thesis
  proof (cases "c = CHR ''/''")
    case False
    with Cons show ?thesis by (simp add: localizedPath_def)
  next
    case True
    show ?thesis
    proof (cases "has_locale_prefix l path")
      case True
      with Cons \<open>c = CHR ''/''\<close> show ?thesis by (simp add: localizedPath_def)
    next
      case False
      with Cons \<open>c = CHR ''/''\<close> have "localizedPath l path = CHR ''/'' # l @ CHR ''/'' # cs"
        by (simp add: localizedPath_def)
      then show ?thesis
        by (simp add: localizedPath_def has_locale_prefix_added)
    qed
  qed
qed

lemma prefixed_starts_with_slash: "has_locale_prefix l path \<Longrightarrow> \<exists>cs. path = CHR ''/'' # cs"
  by (cases path) (auto simp: has_locale_prefix_def)

lemma localizedPath_prefixed: "has_locale_prefix l path \<Longrightarrow> localizedPath l path = path"
  by (cases path) (auto simp: localizedPath_def dest: prefixed_starts_with_slash)

text \<open>
  C4. Link generation is idempotent: for every locale \<open>l\<close> and every path that already
  carries the segment of \<open>l\<close>, the generated path is the path itself, not the path with the
  segment added once more; generating from a generated path changes nothing; and the
  same holds for the \<^verbatim>\<open>href\<close> that \<^verbatim>\<open>LocalizedLink\<close> renders, whether the target locale is
  given or is the active one.
\<close>

theorem localizedPath_idempotent:
  "(has_locale_prefix l path \<longrightarrow>
      localizedPath l path = path \<and> localizedPath l path \<noteq> CHR ''/'' # l @ path)
   \<and> localizedPath l (localizedPath l path) = localizedPath l path
   \<and> (has_locale_prefix l (href props)
        \<and> (target_locale props = Some l \<or> target_locale props = None \<and> active = l) \<longrightarrow>
          a_href (LocalizedLink (Link active) props) = href props)
   \<and> LocalizedLink (Link active) (props\<lparr>href := a_href (LocalizedLink (Link active) props)\<rparr>)
       = LocalizedLink (Link active) props"
proof -
  have a: "has_locale_prefix l path \<longrightarrow>
      localizedPath l path = path \<and> localizedPath l path \<noteq> CHR ''/'' # l @ path"
    by (simp add: localizedPath_prefixed)
  have b: "localizedPath l (localizedPath l path) = localizedPath l path"
    by (rule localizedPath_again)
  have c: "has_locale_prefix l (href props)
        \<and> (target_locale props = Some l \<or> target_locale props = None \<and> active = l) \<longrightarrow>
          a_href (LocalizedLink (Link active) props) = href props"
    by (auto simp: LocalizedLink_def Link_def localizedPath_prefixed)
  have d: "LocalizedLink (Link active) (props\<lparr>href := a_href (LocalizedLink (Link active) props)\<rparr>)
       = LocalizedLink (Link active) props"
    by (simp add: LocalizedLink_def Link_def localizedPath_again)
  from a b c d show ?thesis by blast
qed

theorem localizedPath_idempotent_witness:
  "has_locale_prefix ''ar'' ''/ar/about''
   \<and> localizedPath ''ar'' ''/ar/about'' = ''/ar/about''
   \<and> localizedPath ''ar'' ''/ar/about'' \<noteq> ''/ar/ar/about''
   \<and> a_href (LocalizedLink (Link ''en'') \<lparr>href = ''/ar/about'', target_locale = Some ''ar''\<rparr>)
       = ''/ar/about''"
proof -
  have h: "has_locale_prefix ''ar'' ''/ar/about''"
    by (simp add: has_locale_prefix_def)
  from h localizedPath_idempotent
         [of "''ar''" "''/ar/about''" "\<lparr>href = ''/ar/about'', target_locale = Some ''ar''\<rparr>" "''en''"]
  show ?thesis by simp
qed

end
